theory Spec2Isabelle
  imports Main "HOL-Library.Word" "HOL-Library.Signed_Division"
begin

unbundle bit_operations_syntax

section \<open>Machine types of the 32-bit Windows build\<close>

text \<open>
  \<^verbatim>\<open>forge.cpp\<close> is built for 32-bit Windows (it stores a function pointer in a
  \<^verbatim>\<open>LONG\<close> at line 283), so \<^verbatim>\<open>int\<close>, \<^verbatim>\<open>DWORD\<close>, \<^verbatim>\<open>UINT\<close>, \<^verbatim>\<open>LONG\<close> and every handle or
  pointer that is only passed along are 32-bit words. Signed readings use \<open>sint\<close>.
\<close>

type_synonym int32 = "32 word"
type_synonym DWORD = "32 word"
type_synonym UINT = "32 word"
type_synonym LONG = "32 word"
type_synonym WPARAM = "32 word"
type_synonym LPARAM = "32 word"
type_synonym LRESULT = "32 word"
type_synonym HWND = "32 word"
type_synonym HMENU = "32 word"
type_synonym HINSTANCE = "32 word"
type_synonym HMODULE = "32 word"
type_synonym LPVOID = "32 word"
type_synonym WNDPROC = "32 word"
type_synonym FARPROC = "32 word"

text \<open>The C++ \<^verbatim>\<open>/\<close> on \<^verbatim>\<open>int\<close> truncates towards zero; \<^verbatim>\<open>+\<close> and \<^verbatim>\<open>-\<close> wrap as the
  compiled x86 code does.\<close>

definition int_div :: "int32 \<Rightarrow> int32 \<Rightarrow> int32" where
  "int_div a b = word_of_int (sint a sdiv sint b)"

subsection \<open>Constants of \<^verbatim>\<open>Windows.h\<close>\<close>

definition NULL :: "32 word" where "NULL = 0"

definition SM_CXSCREEN :: int32 where "SM_CXSCREEN = 0"
definition SM_CYSCREEN :: int32 where "SM_CYSCREEN = 1"
definition SM_CXFULLSCREEN :: int32 where "SM_CXFULLSCREEN = 16"
definition SM_CYFULLSCREEN :: int32 where "SM_CYFULLSCREEN = 17"

definition WS_POPUP :: DWORD where "WS_POPUP = 0x80000000"
definition WS_VISIBLE :: DWORD where "WS_VISIBLE = 0x10000000"
definition WS_CAPTION :: DWORD where "WS_CAPTION = 0x00C00000"
definition WS_SYSMENU :: DWORD where "WS_SYSMENU = 0x00080000"

definition WM_PAINT :: UINT where "WM_PAINT = 0x000F"
definition WM_CLOSE :: UINT where "WM_CLOSE = 0x0010"
definition WM_NCHITTEST :: UINT where "WM_NCHITTEST = 0x0084"
definition WM_NCPAINT :: UINT where "WM_NCPAINT = 0x0085"
definition WM_NCACTIVATE :: UINT where "WM_NCACTIVATE = 0x0086"
definition WM_NCMOUSEMOVE :: UINT where "WM_NCMOUSEMOVE = 0x00A0"
definition WM_NCLBUTTONDOWN :: UINT where "WM_NCLBUTTONDOWN = 0x00A1"
definition WM_NCLBUTTONUP :: UINT where "WM_NCLBUTTONUP = 0x00A2"
definition WM_USER :: UINT where "WM_USER = 0x0400"

definition MB_OK :: UINT where "MB_OK = 0"
definition GWL_WNDPROC :: int32 where "GWL_WNDPROC = - 4"

text \<open>Line 136: \<^verbatim>\<open>#define WM_END_WND_PROC_WORKER (WM_USER + 27)\<close>.\<close>

definition WM_END_WND_PROC_WORKER :: UINT where
  "WM_END_WND_PROC_WORKER = WM_USER + 27"

subsection \<open>C strings\<close>

text \<open>
  A \<^verbatim>\<open>const char*\<close> that the code reads is the list of its characters; the string it
  denotes ends at the first NUL, or at the end of the list (the terminator is then
  implicit). \<open>strcmp\<close> is the C library's: it compares up to and including the
  terminator and returns the sign of the first difference.
\<close>

definition c_str :: "string \<Rightarrow> string" where
  "c_str s = takeWhile (\<lambda>c. c \<noteq> CHR 0x00) s"

fun strcmp :: "string \<Rightarrow> string \<Rightarrow> int" where
  "strcmp [] [] = 0"
| "strcmp [] (b # bs) = (if b = CHR 0x00 then 0 else - 1)"
| "strcmp (a # as) [] = (if a = CHR 0x00 then 0 else 1)"
| "strcmp (a # as) (b # bs) =
     (if a \<noteq> b then (if (of_char a :: nat) < of_char b then - 1 else 1)
      else if a = CHR 0x00 then 0
      else strcmp as bs)"

section \<open>The platform and the absent collaborators\<close>

text \<open>
  \<^verbatim>\<open>RECT\<close> and \<^verbatim>\<open>MSG\<close> of \<^verbatim>\<open>Windows.h\<close>, and the twelve arguments of
  \<^verbatim>\<open>CreateWindowExA\<close>. The class name is read by the hook and so is a string; the
  window name is only handed on and stays a pointer.
\<close>

record RECT =
  left :: LONG
  top_edge :: LONG
  right :: LONG
  bottom :: LONG

record MSG =
  hwnd :: HWND
  message :: UINT
  wParam :: WPARAM
  lParam :: LPARAM
  time :: DWORD
  pt :: "LONG \<times> LONG"

record CreateWindowExA_args =
  dwExStyle :: DWORD
  lpClassName :: string
  lpWindowName :: "32 word"
  dwStyle :: DWORD
  x_pos :: int32
  y_pos :: int32
  nWidth :: int32
  nHeight :: int32
  hWndParent :: HWND
  hMenu :: HMENU
  hInstance :: HINSTANCE
  lpParam :: LPVOID

datatype LogLevel = Verbose

text \<open>The JavaScript values that cross the binding, and a \<^verbatim>\<open>DirectGlaw\<close> object by identity.\<close>

datatype v8_value = v8_Undefined | v8_Null | v8_Boolean bool | v8_String string | v8_Function nat

datatype DirectGlaw = DirectGlaw nat

text \<open>The three entries of \<^verbatim>\<open>hooks_\<close> (the struct \<^verbatim>\<open>ImportHooks\<close>).\<close>

datatype hook_entry = Hook_CreateWindowExA | Hook_GetSystemMetrics | Hook_GetProcAddress

text \<open>
  Everything the code calls but does not define is a parameter: the Win32 functions as
  the module itself imports them, and the members of \<^verbatim>\<open>ImportHook\<close>
  (\<^verbatim>\<open>common/func_hook.h\<close>): \<^verbatim>\<open>original()\<close> of each entry, and what \<^verbatim>\<open>Inject()\<close>
  and \<^verbatim>\<open>Restore()\<close> of each entry return. \<open>call_wndproc p\<close> is the call through the
  function pointer \<open>p\<close>. \<open>DirectGlawCreate\<close> and \<open>Forge_WndProc\<close> are the addresses of
  the two functions whose addresses the code hands out. \<open>AdjustWindowRect\<close> gives the
  rectangle as the call leaves it (its \<^verbatim>\<open>BOOL\<close> result is ignored by the code).
\<close>

record platform =
  GetSystemMetrics :: "int32 \<Rightarrow> int32"
  AdjustWindowRect :: "RECT \<Rightarrow> DWORD \<Rightarrow> bool \<Rightarrow> RECT"
  GetWindowLong :: "HWND \<Rightarrow> int32 \<Rightarrow> LONG"
  DefWindowProc :: "HWND \<Rightarrow> UINT \<Rightarrow> WPARAM \<Rightarrow> LPARAM \<Rightarrow> LRESULT"
  call_wndproc :: "WNDPROC \<Rightarrow> HWND \<Rightarrow> UINT \<Rightarrow> WPARAM \<Rightarrow> LPARAM \<Rightarrow> LRESULT"
  original_CreateWindowExA :: "CreateWindowExA_args \<Rightarrow> HWND"
  original_GetSystemMetrics :: "int32 \<Rightarrow> int32"
  original_GetProcAddress :: "HMODULE \<Rightarrow> string \<Rightarrow> FARPROC"
  hook_Inject :: "hook_entry \<Rightarrow> bool"
  hook_Restore :: "hook_entry \<Rightarrow> bool"
  DirectGlawCreate :: FARPROC
  Forge_WndProc :: LONG
  AsciiValue :: "v8_value \<Rightarrow> string"

text \<open>
  The calls a function makes to the outside, in order. The format arguments of a log
  line are left out.
\<close>

datatype call =
    Logf LogLevel string
  | Call_GetSystemMetrics int32
  | Call_AdjustWindowRect RECT DWORD bool
  | Call_GetWindowLong HWND int32
  | Call_SetWindowLong HWND int32 LONG
  | Call_DefWindowProc HWND UINT WPARAM LPARAM
  | Call_MessageBox HWND string string UINT
  | Call_wndproc WNDPROC HWND UINT WPARAM LPARAM
  | Call_original_CreateWindowExA CreateWindowExA_args
  | Call_original_GetSystemMetrics int32
  | Call_original_GetProcAddress HMODULE string
  | Call_hook_Inject hook_entry
  | Call_hook_Restore hook_entry
  | Call_PostMessage HWND UINT WPARAM LPARAM
  | Call_GetMessage
  | Call_TranslateMessage MSG
  | Call_DispatchMessage MSG
  | Call_Function v8_value "v8_value list"
  | Call_FatalException
  | Call_AddRef DirectGlaw
  | Call_SetVertexShader DirectGlaw string
  | Call_SetFragmentShader DirectGlaw string

text \<open>An \<^verbatim>\<open>assert\<close> that fails aborts the process; the number is its source line.\<close>

datatype error = AssertionFailed nat

section \<open>The hooking context\<close>

text \<open>
  The fields of the one \<^verbatim>\<open>Forge\<close> object that \<^verbatim>\<open>instance_\<close> points to, named as in
  the class without the trailing underscore. A null \<^verbatim>\<open>char*\<close> or \<^verbatim>\<open>DirectGlaw*\<close> is
  \<open>None\<close>; \<^verbatim>\<open>hooks_\<close> is in \<open>platform\<close>.
\<close>

record Forge =
  window_handle :: HWND
  original_wndproc :: WNDPROC
  direct_glaw :: "DirectGlaw option"
  vertex_shader_src :: "string option"
  fragment_shader_src :: "string option"

text \<open>The constructor's member initialisers (lines 36 to 41).\<close>

definition Forge_new :: Forge where
  "Forge_new = \<lparr> window_handle = NULL, original_wndproc = NULL, direct_glaw = None,
     vertex_shader_src = None, fragment_shader_src = None \<rparr>"

subsection \<open>\<^verbatim>\<open>Forge::GetSystemMetricsHook\<close> (lines 288 to 299)\<close>

definition GetSystemMetricsHook :: "platform \<Rightarrow> int32 \<Rightarrow> int32 \<times> call list" where
  "GetSystemMetricsHook p nIndex =
     (if nIndex = SM_CXSCREEN \<or> nIndex = SM_CXFULLSCREEN then (640, [])
      else if nIndex = SM_CYSCREEN \<or> nIndex = SM_CYFULLSCREEN then (480, [])
      else (original_GetSystemMetrics p nIndex, [Call_original_GetSystemMetrics nIndex]))"

subsection \<open>\<^verbatim>\<open>Forge::GetProcAddressHook\<close> (lines 301 to 308)\<close>

definition GetProcAddressHook :: "platform \<Rightarrow> HMODULE \<Rightarrow> string \<Rightarrow> FARPROC \<times> call list" where
  "GetProcAddressHook p hModule lpProcName =
     (if strcmp lpProcName ''DirectDrawCreate'' = 0
      then (DirectGlawCreate p, [Logf Verbose ''Injecting custom DirectDrawCreate''])
      else (original_GetProcAddress p hModule lpProcName,
            [Call_original_GetProcAddress hModule lpProcName]))"

subsection \<open>\<^verbatim>\<open>Forge::Inject\<close> and \<^verbatim>\<open>Forge::Restore\<close> (lines 114 to 134)\<close>

text \<open>\<^verbatim>\<open>result &= b\<close> on \<^verbatim>\<open>bool\<close>: the bitwise and of the two truth values; \<open>b\<close> is
  evaluated whatever \<open>result\<close> holds.\<close>

definition and_assign :: "bool \<Rightarrow> bool \<Rightarrow> bool" where
  "and_assign result b = (result \<and> b)"

definition Inject :: "platform \<Rightarrow> v8_value list \<Rightarrow> v8_value \<times> call list" where
  "Inject p args =
     (let result = True;
          result = and_assign result (hook_Inject p Hook_CreateWindowExA);
          result = and_assign result (hook_Inject p Hook_GetSystemMetrics);
          result = and_assign result (hook_Inject p Hook_GetProcAddress)
      in (v8_Boolean result,
          [Call_hook_Inject Hook_CreateWindowExA, Call_hook_Inject Hook_GetSystemMetrics,
           Call_hook_Inject Hook_GetProcAddress]))"

definition Restore :: "platform \<Rightarrow> v8_value list \<Rightarrow> v8_value \<times> call list" where
  "Restore p args =
     (let result = True;
          result = and_assign result (hook_Restore p Hook_CreateWindowExA);
          result = and_assign result (hook_Restore p Hook_GetSystemMetrics);
          result = and_assign result (hook_Restore p Hook_GetProcAddress)
      in (v8_Boolean result,
          [Call_hook_Restore Hook_CreateWindowExA, Call_hook_Restore Hook_GetSystemMetrics,
           Call_hook_Restore Hook_GetProcAddress]))"

subsection \<open>\<^verbatim>\<open>Forge::RegisterDirectGlaw\<close> (lines 90 to 99)\<close>

definition RegisterDirectGlaw :: "Forge \<Rightarrow> DirectGlaw \<Rightarrow> error + Forge \<times> call list" where
  "RegisterDirectGlaw inst glaw =
     (if direct_glaw inst \<noteq> None then Inl (AssertionFailed 91)
      else case vertex_shader_src inst of
        None \<Rightarrow> Inl (AssertionFailed 92)
      | Some vertex_src \<Rightarrow>
         (case fragment_shader_src inst of
            None \<Rightarrow> Inl (AssertionFailed 93)
          | Some fragment_src \<Rightarrow>
              Inr (inst\<lparr>direct_glaw := Some glaw\<rparr>,
                   [Call_AddRef glaw,
                    Call_SetVertexShader glaw vertex_src,
                    Call_SetFragmentShader glaw fragment_src])))"

subsection \<open>\<^verbatim>\<open>Forge::SetVertexShader\<close> and \<^verbatim>\<open>Forge::SetFragmentShader\<close> (lines 198 to 224)\<close>

text \<open>\<^verbatim>\<open>strcpy_s\<close> copies up to the first NUL of the converted argument.\<close>

definition SetVertexShader :: "platform \<Rightarrow> Forge \<Rightarrow> v8_value list \<Rightarrow> error + v8_value \<times> Forge" where
  "SetVertexShader p inst args =
     (if window_handle inst \<noteq> NULL then Inl (AssertionFailed 200)
      else case args of
        [] \<Rightarrow> Inl (AssertionFailed 201)
      | arg0 # _ \<Rightarrow>
          Inr (v8_Undefined, inst\<lparr>vertex_shader_src := Some (c_str (AsciiValue p arg0))\<rparr>))"

definition SetFragmentShader :: "platform \<Rightarrow> Forge \<Rightarrow> v8_value list \<Rightarrow> error + v8_value \<times> Forge" where
  "SetFragmentShader p inst args =
     (if window_handle inst \<noteq> NULL then Inl (AssertionFailed 214)
      else case args of
        [] \<Rightarrow> Inl (AssertionFailed 215)
      | arg0 # _ \<Rightarrow>
          Inr (v8_Undefined, inst\<lparr>fragment_shader_src := Some (c_str (AsciiValue p arg0))\<rparr>))"

subsection \<open>\<^verbatim>\<open>Forge::WndProc\<close> (lines 226 to 247)\<close>

text \<open>
  The first seven cases of the \<^verbatim>\<open>switch\<close> return at line 237. The case
  \<^verbatim>\<open>WM_CLOSE\<close> shows the message box and, having no \<^verbatim>\<open>return\<close> or \<^verbatim>\<open>break\<close> of its own,
  leaves the \<^verbatim>\<open>switch\<close> at its end like every unlisted message.
\<close>

definition WndProc ::
  "platform \<Rightarrow> Forge \<Rightarrow> HWND \<Rightarrow> UINT \<Rightarrow> WPARAM \<Rightarrow> LPARAM \<Rightarrow> LRESULT \<times> call list" where
  "WndProc p inst hWnd msg wparam lparam =
     (let logged = [Logf Verbose ''WndProc(..., 0x%04x, 0x%08x, 0x%08x)''] in
      if msg = WM_NCACTIVATE \<or> msg = WM_NCHITTEST \<or> msg = WM_NCLBUTTONDOWN
         \<or> msg = WM_NCLBUTTONUP \<or> msg = WM_NCMOUSEMOVE \<or> msg = WM_NCPAINT \<or> msg = WM_PAINT
      then (DefWindowProc p hWnd msg wparam lparam,
            logged @ [Call_DefWindowProc hWnd msg wparam lparam])
      else
        let shown = (if msg = WM_CLOSE
                     then [Call_MessageBox hWnd ''Omg.'' ''Pls no...'' MB_OK]
                     else [])
        in if original_wndproc inst = NULL
           then (DefWindowProc p hWnd msg wparam lparam,
                 logged @ shown @ [Call_DefWindowProc hWnd msg wparam lparam])
           else (call_wndproc p (original_wndproc inst) hWnd msg wparam lparam,
                 logged @ shown
                 @ [Call_wndproc (original_wndproc inst) hWnd msg wparam lparam]))"

subsection \<open>\<^verbatim>\<open>Forge::CreateWindowExAHook\<close> (lines 249 to 286)\<close>

text \<open>
  \<^verbatim>\<open>GetSystemMetrics\<close> at lines 263 and 264 is the module's own import of the Win32
  function, \<open>GetSystemMetrics p\<close>. The hooks patch the imports of the module that
  \<^verbatim>\<open>GetModuleHandle(NULL)\<close> names (lines 45 to 51), the legacy executable, and
  \<^verbatim>\<open>GetSystemMetricsHook\<close> is not what the call names.
\<close>

definition CreateWindowExAHook ::
  "platform \<Rightarrow> Forge \<Rightarrow> CreateWindowExA_args \<Rightarrow> error + HWND \<times> Forge \<times> call list" where
  "CreateWindowExAHook p inst a =
     (let called = Logf Verbose ''CreateWindowExA called for class %s (%d,%d), %dx%d'' in
      if strcmp (lpClassName a) ''SWarClass'' \<noteq> 0
      then Inr (original_CreateWindowExA p a, inst, [called, Call_original_CreateWindowExA a])
      else if window_handle inst \<noteq> NULL then Inl (AssertionFailed 258)
      else
        let width = 640;
            height = 480;
            left_v = int_div (GetSystemMetrics p SM_CXSCREEN - 640) 2;
            top_v = int_div (GetSystemMetrics p SM_CYSCREEN - 480) 2;
            style = WS_POPUP OR WS_VISIBLE OR WS_CAPTION OR WS_SYSMENU;
            window_rect = \<lparr> left = left_v, top_edge = top_v,
                            right = left_v + width, bottom = top_v + height \<rparr>;
            adjusted = AdjustWindowRect p window_rect style False;
            rewritten = a\<lparr> dwStyle := style,
                          x_pos := left adjusted, y_pos := top_edge adjusted,
                          nWidth := right adjusted - left adjusted,
                          nHeight := bottom adjusted - top_edge adjusted \<rparr>;
            inst1 = inst\<lparr> window_handle := original_CreateWindowExA p rewritten \<rparr>;
            inst2 = inst1\<lparr> original_wndproc :=
                             GetWindowLong p (window_handle inst1) GWL_WNDPROC \<rparr>
        in Inr (window_handle inst2, inst2,
                [called,
                 Call_GetSystemMetrics SM_CXSCREEN, Call_GetSystemMetrics SM_CYSCREEN,
                 Call_AdjustWindowRect window_rect style False,
                 Logf Verbose ''Rewriting CreateWindowExA call to (%d, %d), %dx%d)'',
                 Call_original_CreateWindowExA rewritten,
                 Call_GetWindowLong (window_handle inst1) GWL_WNDPROC,
                 Call_SetWindowLong (window_handle inst2) GWL_WNDPROC (Forge_WndProc p)]))"

subsection \<open>The message pump (lines 138 to 196)\<close>

record WndProcContext =
  cb :: v8_value
  quit :: bool

text \<open>
  \<open>pump\<close> is the \<^verbatim>\<open>while\<close> loop of \<^verbatim>\<open>WndProcWorker\<close> (lines 148 to 158). Its first
  argument is everything \<^verbatim>\<open>GetMessage\<close> will ever hand to this thread, in order: the
  value each call returns and the \<^verbatim>\<open>MSG\<close> it leaves in the buffer. \<^verbatim>\<open>GetMessage\<close>
  blocks while the queue is empty, so when nothing is left the call never returns and
  neither does the worker: the result is \<open>None\<close>.
\<close>

fun pump :: "(int32 \<times> MSG) list \<Rightarrow> WndProcContext \<Rightarrow> (WndProcContext \<times> call list) option" where
  "pump [] context = None"
| "pump ((ret, msg) # queue) context =
     (if ret \<noteq> 0
      then (if message msg = WM_END_WND_PROC_WORKER
            then Some (context, [Call_GetMessage])
            else map_option
                   (\<lambda>(c, calls). (c, [Call_GetMessage, Call_TranslateMessage msg,
                                       Call_DispatchMessage msg] @ calls))
                   (pump queue context))
      else Some (context\<lparr>quit := True\<rparr>, [Call_GetMessage]))"

definition WndProcWorker ::
  "(int32 \<times> MSG) list \<Rightarrow> WndProcContext \<Rightarrow> (WndProcContext \<times> call list) option" where
  "WndProcWorker queue context = pump queue (context\<lparr>quit := False\<rparr>)"

text \<open>\<open>has_caught\<close> is \<^verbatim>\<open>try_catch.HasCaught()\<close>: whether the callback threw.\<close>

definition WndProcWorkerAfter :: "bool \<Rightarrow> WndProcContext \<Rightarrow> call list" where
  "WndProcWorkerAfter has_caught context =
     [Call_Function (cb context) [v8_Null, v8_Boolean (quit context)]]
     @ (if has_caught then [Call_FatalException] else [])"

text \<open>
  Modelled from the spec: \<^verbatim>\<open>sbat::QueueWorkForUiThread\<close> is declared in
  \<^verbatim>\<open>shieldbattery/shieldbattery.h\<close>, which is not among the sources. By sections 4.5
  and 5 of the specification the work function runs on the pump's execution context and,
  once it has returned, the completion function runs once on the context that scheduled
  the work. The result lists the calls of both, or is \<open>None\<close> when the work function
  never returns.
\<close>

definition QueueWorkForUiThread ::
  "WndProcContext \<Rightarrow> (WndProcContext \<Rightarrow> (WndProcContext \<times> call list) option)
     \<Rightarrow> (WndProcContext \<Rightarrow> call list) \<Rightarrow> call list option" where
  "QueueWorkForUiThread context worker after =
     (case worker context of
        None \<Rightarrow> None
      | Some (context', calls) \<Rightarrow> Some (calls @ after context'))"

text \<open>
  \<^verbatim>\<open>RunWndProc\<close> returns \<^verbatim>\<open>undefined\<close> at once; the second component is what the queued
  work item does afterwards.
\<close>

definition RunWndProc ::
  "Forge \<Rightarrow> v8_value list \<Rightarrow> (int32 \<times> MSG) list \<Rightarrow> bool
     \<Rightarrow> error + v8_value \<times> call list option" where
  "RunWndProc inst args queue has_caught =
     (if window_handle inst = NULL then Inl (AssertionFailed 178)
      else case args of
        [] \<Rightarrow> Inl (AssertionFailed 179)
      | arg0 # _ \<Rightarrow>
          let context = \<lparr> cb = arg0, quit = False \<rparr>
          in Inr (v8_Undefined,
                  QueueWorkForUiThread context (WndProcWorker queue)
                    (WndProcWorkerAfter has_caught)))"

definition EndWndProc :: "Forge \<Rightarrow> v8_value list \<Rightarrow> error + v8_value \<times> call list" where
  "EndWndProc inst args =
     (if window_handle inst = NULL then Inl (AssertionFailed 192)
      else Inr (v8_Undefined,
                [Call_PostMessage (window_handle inst) WM_END_WND_PROC_WORKER NULL NULL]))"

subsection \<open>Sequences of operations on one context\<close>

datatype operation =
    Op_Inject "v8_value list"
  | Op_Restore "v8_value list"
  | Op_RunWndProc "v8_value list" "(int32 \<times> MSG) list" bool
  | Op_EndWndProc "v8_value list"
  | Op_SetVertexShader "v8_value list"
  | Op_SetFragmentShader "v8_value list"
  | Op_RegisterDirectGlaw DirectGlaw
  | Op_WndProc HWND UINT WPARAM LPARAM
  | Op_CreateWindowExAHook CreateWindowExA_args
  | Op_GetSystemMetricsHook int32
  | Op_GetProcAddressHook HMODULE string

text \<open>The context after one operation, or the assertion that stopped the process.\<close>

fun step :: "platform \<Rightarrow> Forge \<Rightarrow> operation \<Rightarrow> error + Forge" where
  "step p inst (Op_Inject args) = Inr inst"
| "step p inst (Op_Restore args) = Inr inst"
| "step p inst (Op_RunWndProc args queue has_caught) =
     map_sum id (\<lambda>_. inst) (RunWndProc inst args queue has_caught)"
| "step p inst (Op_EndWndProc args) = map_sum id (\<lambda>_. inst) (EndWndProc inst args)"
| "step p inst (Op_SetVertexShader args) = map_sum id snd (SetVertexShader p inst args)"
| "step p inst (Op_SetFragmentShader args) = map_sum id snd (SetFragmentShader p inst args)"
| "step p inst (Op_RegisterDirectGlaw glaw) =
     map_sum id fst (RegisterDirectGlaw inst glaw)"
| "step p inst (Op_WndProc hWnd msg wparam lparam) = Inr inst"
| "step p inst (Op_CreateWindowExAHook a) =
     map_sum id (\<lambda>(h, inst', calls). inst') (CreateWindowExAHook p inst a)"
| "step p inst (Op_GetSystemMetricsHook nIndex) = Inr inst"
| "step p inst (Op_GetProcAddressHook hModule lpProcName) = Inr inst"

text \<open>Each operation comes with the platform's answers during it.\<close>

fun exec :: "Forge \<Rightarrow> (platform \<times> operation) list \<Rightarrow> error + Forge" where
  "exec inst [] = Inr inst"
| "exec inst ((p, operation) # rest) =
     (case step p inst operation of Inl e \<Rightarrow> Inl e | Inr inst' \<Rightarrow> exec inst' rest)"

subsection \<open>A concrete platform\<close>

text \<open>A 1920 by 1080 desktop whose window frame is 3 wide with a caption 23 high.\<close>

definition desktop :: platform where
  "desktop = \<lparr>
     GetSystemMetrics = (\<lambda>i. if i = 0 then 1920 else if i = 1 then 1080 else 0),
     AdjustWindowRect = (\<lambda>r style has_menu.
        \<lparr> left = left r - 3, top_edge = top_edge r - 26, right = right r + 3,
          bottom = bottom r + 3 \<rparr>),
     GetWindowLong = (\<lambda>h i. 0x00401000),
     DefWindowProc = (\<lambda>h msg wparam lparam. 0),
     call_wndproc = (\<lambda>f h msg wparam lparam. 1),
     original_CreateWindowExA = (\<lambda>a. 0x000A0B0C),
     original_GetSystemMetrics = (\<lambda>i. if i = 0 then 1920 else if i = 1 then 1080 else - 1),
     original_GetProcAddress = (\<lambda>m name. 0x76000000 + of_nat (length name)),
     hook_Inject = (\<lambda>e. True),
     hook_Restore = (\<lambda>e. e \<noteq> Hook_GetProcAddress),
     DirectGlawCreate = 0x10002000,
     Forge_WndProc = 0x10003000,
     AsciiValue = (\<lambda>v. case v of v8_String s \<Rightarrow> s | _ \<Rightarrow> []) \<rparr>"

definition swar_request :: CreateWindowExA_args where
  "swar_request = \<lparr> dwExStyle = 0, lpClassName = ''SWarClass'', lpWindowName = 0x00500000,
     dwStyle = 0x80000000, x_pos = 0, y_pos = 0, nWidth = 1920, nHeight = 1080,
     hWndParent = 0, hMenu = 0, hInstance = 0x00400000, lpParam = 0 \<rparr>"

definition button_request :: CreateWindowExA_args where
  "button_request = \<lparr> dwExStyle = 0, lpClassName = ''BUTTON'', lpWindowName = 0x00500010,
     dwStyle = 0x50000000, x_pos = 10, y_pos = 20, nWidth = 80, nHeight = 24,
     hWndParent = 0x000A0B0C, hMenu = 7, hInstance = 0x00400000, lpParam = 0 \<rparr>"

definition ordinary_msg :: MSG where
  "ordinary_msg = \<lparr> hwnd = 0x000A0B0C, message = 0x0200, wParam = 0, lParam = 0,
     time = 1000, pt = (5, 5) \<rparr>"

definition sentinel_msg :: MSG where
  "sentinel_msg = \<lparr> hwnd = 0x000A0B0C, message = WM_END_WND_PROC_WORKER, wParam = 0,
     lParam = 0, time = 2000, pt = (5, 5) \<rparr>"

definition quit_msg :: MSG where
  "quit_msg = \<lparr> hwnd = 0, message = 0x0012, wParam = 0, lParam = 0,
     time = 3000, pt = (5, 5) \<rparr>"

definition recorded :: Forge where
  "recorded = Forge_new\<lparr> window_handle := 0x000A0B0C, original_wndproc := 0x00401000 \<rparr>"

subsection \<open>Notions the properties are stated with\<close>

text \<open>
  The placement in the specification's words: a client area of 640 by 480 centred over
  the metrics that \<^verbatim>\<open>GetSystemMetricsHook\<close> reports.
\<close>

definition spec_client_rect :: "platform \<Rightarrow> RECT" where
  "spec_client_rect p =
     (let l = int_div (fst (GetSystemMetricsHook p SM_CXSCREEN) - 640) 2;
          t = int_div (fst (GetSystemMetricsHook p SM_CYSCREEN) - 480) 2
      in \<lparr> left = l, top_edge = t, right = l + 640, bottom = t + 480 \<rparr>)"

text \<open>
  An entry of the queue keeps the pump going when \<^verbatim>\<open>GetMessage\<close> returned non-zero and
  the message is not the sentinel; any other entry ends the loop.
\<close>

definition pumped :: "int32 \<times> MSG \<Rightarrow> bool" where
  "pumped entry = (fst entry \<noteq> 0 \<and> message (snd entry) \<noteq> WM_END_WND_PROC_WORKER)"

text \<open>The calls that invoke a JavaScript function: here, the completion handler.\<close>

fun is_completion :: "call \<Rightarrow> bool" where
  "is_completion (Call_Function f arguments) = True"
| "is_completion other = False"

text \<open>
  The completion calls that an invocation of \<^verbatim>\<open>RunWndProc\<close> leads to: none when an
  assertion stopped it or when the queued worker never returns.
\<close>

definition handler_calls :: "error + v8_value \<times> call list option \<Rightarrow> call list" where
  "handler_calls outcome =
     (case outcome of
        Inl e \<Rightarrow> []
      | Inr (v, None) \<Rightarrow> []
      | Inr (v, Some calls) \<Rightarrow> filter is_completion calls)"

section \<open>Properties\<close>

subsection \<open>Auxiliary facts\<close>

lemma strcmp_eq_0_iff: "strcmp a b = 0 \<longleftrightarrow> c_str a = c_str b"
  by (induction a b rule: strcmp.induct) (auto simp: c_str_def)

lemma c_str_DirectDrawCreate: "c_str ''DirectDrawCreate'' = ''DirectDrawCreate''"
  by (simp add: c_str_def)

lemma c_str_SWarClass: "c_str ''SWarClass'' = ''SWarClass''"
  by (simp add: c_str_def)

lemmas SM_defs = SM_CXSCREEN_def SM_CYSCREEN_def SM_CXFULLSCREEN_def SM_CYFULLSCREEN_def

lemmas WS_defs = WS_POPUP_def WS_VISIBLE_def WS_CAPTION_def WS_SYSMENU_def

lemmas WM_defs = WM_PAINT_def WM_CLOSE_def WM_NCHITTEST_def WM_NCPAINT_def WM_NCACTIVATE_def
  WM_NCMOUSEMOVE_def WM_NCLBUTTONDOWN_def WM_NCLBUTTONUP_def

lemma int_div_values: "int_div 1280 2 = 640" "int_div 600 2 = 300" "int_div 0 2 = 0"
  by (simp_all add: int_div_def signed_divide_int_def)

lemma desktop_style: "WS_POPUP OR WS_VISIBLE OR WS_CAPTION OR WS_SYSMENU = (0x90C80000 :: DWORD)"
  by (simp add: WS_defs)

lemma rewritten_args:
  "(a :: CreateWindowExA_args)\<lparr> dwStyle := s, x_pos := x, y_pos := y, nWidth := w, nHeight := h \<rparr>
   = \<lparr> dwExStyle = dwExStyle a, lpClassName = lpClassName a, lpWindowName = lpWindowName a,
       dwStyle = s, x_pos = x, y_pos = y, nWidth = w, nHeight = h,
       hWndParent = hWndParent a, hMenu = hMenu a, hInstance = hInstance a,
       lpParam = lpParam a \<rparr>"
  by (cases a) simp

lemma swar_class: "c_str (lpClassName swar_request) = ''SWarClass''"
  by (simp add: swar_request_def c_str_def)

lemma CreateWindowExAHook_recorded:
  "window_handle inst \<noteq> NULL \<Longrightarrow>
   CreateWindowExAHook p inst a
     = (if strcmp (lpClassName a) ''SWarClass'' \<noteq> 0
        then Inr (original_CreateWindowExA p a, inst,
                  [Logf Verbose ''CreateWindowExA called for class %s (%d,%d), %dx%d'',
                   Call_original_CreateWindowExA a])
        else Inl (AssertionFailed 258))"
  by (simp add: CreateWindowExAHook_def)

lemma desktop_created:
  "CreateWindowExAHook desktop Forge_new swar_request
     = Inr (0x000A0B0C, recorded,
            [Logf Verbose ''CreateWindowExA called for class %s (%d,%d), %dx%d'',
             Call_GetSystemMetrics SM_CXSCREEN, Call_GetSystemMetrics SM_CYSCREEN,
             Call_AdjustWindowRect \<lparr> left = 640, top_edge = 300, right = 1280, bottom = 780 \<rparr>
               0x90C80000 False,
             Logf Verbose ''Rewriting CreateWindowExA call to (%d, %d), %dx%d)'',
             Call_original_CreateWindowExA
               (swar_request\<lparr> dwStyle := 0x90C80000, x_pos := 637, y_pos := 274,
                               nWidth := 646, nHeight := 509 \<rparr>),
             Call_GetWindowLong 0x000A0B0C GWL_WNDPROC,
             Call_SetWindowLong 0x000A0B0C GWL_WNDPROC 0x10003000])"
  by (simp add: CreateWindowExAHook_def Let_def strcmp_eq_0_iff swar_class c_str_SWarClass
        Forge_new_def recorded_def desktop_def SM_defs int_div_values desktop_style)

lemma step_keeps_window_handle:
  "window_handle inst \<noteq> NULL \<Longrightarrow> step p inst operation = Inr inst'
     \<Longrightarrow> window_handle inst' = window_handle inst"
  by (cases operation)
     (auto simp: RunWndProc_def EndWndProc_def SetVertexShader_def SetFragmentShader_def
        RegisterDirectGlaw_def CreateWindowExAHook_recorded
        split: if_splits list.splits option.splits)

lemma exec_keeps_window_handle:
  "window_handle inst \<noteq> NULL \<Longrightarrow> exec inst operations = Inr inst'
     \<Longrightarrow> window_handle inst' = window_handle inst"
proof (induction operations arbitrary: inst)
  case Nil
  then show ?case by simp
next
  case (Cons po operations)
  obtain p operation where po: "po = (p, operation)" by (cases po)
  from Cons.prems(2) po obtain mid where
    mid: "step p inst operation = Inr mid" and rest: "exec mid operations = Inr inst'"
    by (auto split: sum.splits)
  from step_keeps_window_handle [OF Cons.prems(1) mid]
  have same: "window_handle mid = window_handle inst" .
  with Cons.prems(1) have "window_handle mid \<noteq> NULL" by simp
  from Cons.IH [OF this rest] same show ?case by simp
qed

lemma pump_exits:
  "list_all pumped before \<Longrightarrow> \<not> pumped (ret, msg) \<Longrightarrow>
   pump (before @ (ret, msg) # rest) context
     = Some (context\<lparr>quit := (ret = 0 \<or> quit context)\<rparr>,
             concat (map (\<lambda>(r, m). [Call_GetMessage, Call_TranslateMessage m,
                                      Call_DispatchMessage m]) before)
             @ [Call_GetMessage])"
proof (induction before)
  case Nil
  then show ?case by (auto simp: pumped_def)
next
  case (Cons entry before)
  obtain r m where entry: "entry = (r, m)" by (cases entry)
  from Cons.prems(1) entry have head: "pumped (r, m)" and tail: "list_all pumped before"
    by simp_all
  from head have "r \<noteq> 0" "message m \<noteq> WM_END_WND_PROC_WORKER"
    by (simp_all add: pumped_def)
  with Cons.IH [OF tail Cons.prems(2)] entry show ?case by simp
qed

lemma pump_blocks: "list_all pumped queue \<Longrightarrow> pump queue context = None"
proof (induction queue)
  case Nil
  then show ?case by simp
next
  case (Cons entry queue)
  obtain r m where entry: "entry = (r, m)" by (cases entry)
  from Cons.prems entry have head: "pumped (r, m)" and tail: "list_all pumped queue"
    by simp_all
  from head have "r \<noteq> 0" "message m \<noteq> WM_END_WND_PROC_WORKER"
    by (simp_all add: pumped_def)
  with Cons.IH [OF tail] entry show ?case by simp
qed

lemma no_completion_while_pumping:
  "filter is_completion
     (concat (map (\<lambda>(r, m). [Call_GetMessage, Call_TranslateMessage m,
                               Call_DispatchMessage m]) before)) = []"
  by (induction before) auto

lemma RunWndProc_exits:
  assumes "window_handle inst \<noteq> NULL" and "list_all pumped before" and "\<not> pumped (ret, msg)"
  shows "RunWndProc inst (onComplete # others) (before @ (ret, msg) # rest) has_caught
     = Inr (v8_Undefined,
            Some (concat (map (\<lambda>(r, m). [Call_GetMessage, Call_TranslateMessage m,
                                            Call_DispatchMessage m]) before)
                  @ [Call_GetMessage]
                  @ [Call_Function onComplete [v8_Null, v8_Boolean (ret = 0)]]
                  @ (if has_caught then [Call_FatalException] else [])))"
  using assms(1)
  by (simp add: RunWndProc_def QueueWorkForUiThread_def WndProcWorker_def
        WndProcWorkerAfter_def Let_def pump_exits [OF assms(2,3)])

lemma RunWndProc_blocks:
  assumes "window_handle inst \<noteq> NULL" and "list_all pumped queue"
  shows "RunWndProc inst (onComplete # others) queue has_caught = Inr (v8_Undefined, None)"
  using assms(1)
  by (simp add: RunWndProc_def QueueWorkForUiThread_def WndProcWorker_def Let_def
        pump_blocks [OF assms(2)])

subsection \<open>The window interceptor\<close>

text \<open>
  Claim C1 (as the code has it). For a request of class \<^verbatim>\<open>SWarClass\<close> that arrives while no
  window is recorded, \<^verbatim>\<open>CreateWindowExAHook\<close> builds a client rectangle of exactly 640 by
  480 whose corner is half of what the module's own \<^verbatim>\<open>GetSystemMetrics\<close> reports for the
  screen beyond 640 by 480, passes it through \<^verbatim>\<open>AdjustWindowRect\<close> for the style
  \<^verbatim>\<open>WS_POPUP | WS_VISIBLE | WS_CAPTION | WS_SYSMENU\<close>, and creates the window with that
  style and the adjusted rectangle, every other argument as given. The requested style,
  position and size have no influence on the outcome.
\<close>

theorem CreateWindowExAHook_rewrites:
  assumes "c_str (lpClassName a) = ''SWarClass''" and "window_handle inst = NULL"
  shows
    "let style = WS_POPUP OR WS_VISIBLE OR WS_CAPTION OR WS_SYSMENU;
         l = int_div (GetSystemMetrics p SM_CXSCREEN - 640) 2;
         t = int_div (GetSystemMetrics p SM_CYSCREEN - 480) 2;
         client = \<lparr> left = l, top_edge = t, right = l + 640, bottom = t + 480 \<rparr>;
         outer = AdjustWindowRect p client style False;
         rewritten = \<lparr> dwExStyle = dwExStyle a, lpClassName = lpClassName a,
            lpWindowName = lpWindowName a, dwStyle = style,
            x_pos = left outer, y_pos = top_edge outer,
            nWidth = right outer - left outer, nHeight = bottom outer - top_edge outer,
            hWndParent = hWndParent a, hMenu = hMenu a, hInstance = hInstance a,
            lpParam = lpParam a \<rparr>;
         h = original_CreateWindowExA p rewritten
     in right client - left client = 640 \<and> bottom client - top_edge client = 480
        \<and> CreateWindowExAHook p inst a
          = Inr (h, inst\<lparr> window_handle := h,
                         original_wndproc := GetWindowLong p h GWL_WNDPROC \<rparr>,
                 [Logf Verbose ''CreateWindowExA called for class %s (%d,%d), %dx%d'',
                  Call_GetSystemMetrics SM_CXSCREEN, Call_GetSystemMetrics SM_CYSCREEN,
                  Call_AdjustWindowRect client style False,
                  Logf Verbose ''Rewriting CreateWindowExA call to (%d, %d), %dx%d)'',
                  Call_original_CreateWindowExA rewritten,
                  Call_GetWindowLong h GWL_WNDPROC,
                  Call_SetWindowLong h GWL_WNDPROC (Forge_WndProc p)])
        \<and> CreateWindowExAHook p inst
            (a\<lparr> dwStyle := dwStyle', x_pos := x', y_pos := y', nWidth := nWidth',
                nHeight := nHeight' \<rparr>)
          = CreateWindowExAHook p inst a"
  using assms
  by (simp add: CreateWindowExAHook_def Let_def strcmp_eq_0_iff c_str_SWarClass rewritten_args)

theorem CreateWindowExAHook_rewrites_witness:
  "c_str (lpClassName swar_request) = ''SWarClass'' \<and> window_handle Forge_new = NULL
   \<and> CreateWindowExAHook desktop Forge_new swar_request
     = Inr (0x000A0B0C, recorded,
            [Logf Verbose ''CreateWindowExA called for class %s (%d,%d), %dx%d'',
             Call_GetSystemMetrics SM_CXSCREEN, Call_GetSystemMetrics SM_CYSCREEN,
             Call_AdjustWindowRect \<lparr> left = 640, top_edge = 300, right = 1280, bottom = 780 \<rparr>
               0x90C80000 False,
             Logf Verbose ''Rewriting CreateWindowExA call to (%d, %d), %dx%d)'',
             Call_original_CreateWindowExA
               (swar_request\<lparr> dwStyle := 0x90C80000, x_pos := 637, y_pos := 274,
                               nWidth := 646, nHeight := 509 \<rparr>),
             Call_GetWindowLong 0x000A0B0C GWL_WNDPROC,
             Call_SetWindowLong 0x000A0B0C GWL_WNDPROC 0x10003000])
   \<and> CreateWindowExAHook desktop Forge_new
        (swar_request\<lparr> dwStyle := 0, x_pos := 100, y_pos := 100, nWidth := 800,
                        nHeight := 600 \<rparr>)
     = CreateWindowExAHook desktop Forge_new swar_request"
proof -
  have cls: "c_str (lpClassName swar_request) = ''SWarClass''"
    by (rule swar_class)
  have unset: "window_handle Forge_new = NULL"
    by (simp add: Forge_new_def)
  have args: "\<lparr> dwExStyle = dwExStyle swar_request, lpClassName = lpClassName swar_request,
            lpWindowName = lpWindowName swar_request, dwStyle = 0x90C80000,
            x_pos = 637, y_pos = 274, nWidth = 646, nHeight = 509,
            hWndParent = hWndParent swar_request, hMenu = hMenu swar_request,
            hInstance = hInstance swar_request, lpParam = lpParam swar_request \<rparr>
      = swar_request\<lparr> dwStyle := 0x90C80000, x_pos := 637, y_pos := 274,
                               nWidth := 646, nHeight := 509 \<rparr>"
    by (simp add: rewritten_args)
  have plat: "GetSystemMetrics desktop SM_CXSCREEN = 1920" "GetSystemMetrics desktop SM_CYSCREEN = 1080"
    "AdjustWindowRect desktop \<lparr> left = 640, top_edge = 300, right = 1280, bottom = 780 \<rparr>
       0x90C80000 False = \<lparr> left = 637, top_edge = 274, right = 1283, bottom = 783 \<rparr>"
    "original_CreateWindowExA desktop = (\<lambda>a. 0x000A0B0C)"
    "GetWindowLong desktop = (\<lambda>h i. 0x00401000)"
    "Forge_WndProc desktop = 0x10003000"
    by (simp_all add: desktop_def SM_defs)
  have rec: "Forge_new\<lparr> window_handle := 0x000A0B0C, original_wndproc := 0x00401000 \<rparr> = recorded"
    by (simp add: recorded_def)
  show ?thesis
    using cls unset
      CreateWindowExAHook_rewrites [OF cls unset, where p = desktop and dwStyle' = 0
        and x' = 100 and y' = 100 and nWidth' = 800 and nHeight' = 600]
    by (simp add: Let_def desktop_style int_div_values plat args rec)
qed

text \<open>
  The placement is not the one over the spoofed metrics. On the 1920 by 1080 desktop the
  client rectangle handed to \<^verbatim>\<open>AdjustWindowRect\<close> is (640, 300, 1280, 780), while the
  rectangle centred over what \<^verbatim>\<open>GetSystemMetricsHook\<close> reports is (0, 0, 640, 480). And a
  second request of class \<^verbatim>\<open>SWarClass\<close> creates no window: it fails the assertion.
\<close>

theorem CreateWindowExAHook_centre_counterexample:
  "CreateWindowExAHook desktop Forge_new swar_request
     = Inr (0x000A0B0C, recorded,
            [Logf Verbose ''CreateWindowExA called for class %s (%d,%d), %dx%d'',
             Call_GetSystemMetrics SM_CXSCREEN, Call_GetSystemMetrics SM_CYSCREEN,
             Call_AdjustWindowRect \<lparr> left = 640, top_edge = 300, right = 1280, bottom = 780 \<rparr>
               0x90C80000 False,
             Logf Verbose ''Rewriting CreateWindowExA call to (%d, %d), %dx%d)'',
             Call_original_CreateWindowExA
               (swar_request\<lparr> dwStyle := 0x90C80000, x_pos := 637, y_pos := 274,
                               nWidth := 646, nHeight := 509 \<rparr>),
             Call_GetWindowLong 0x000A0B0C GWL_WNDPROC,
             Call_SetWindowLong 0x000A0B0C GWL_WNDPROC 0x10003000])
   \<and> spec_client_rect desktop = \<lparr> left = 0, top_edge = 0, right = 640, bottom = 480 \<rparr>
   \<and> spec_client_rect desktop \<noteq> \<lparr> left = 640, top_edge = 300, right = 1280, bottom = 780 \<rparr>
   \<and> CreateWindowExAHook desktop recorded swar_request = Inl (AssertionFailed 258)"
proof -
  have spec: "spec_client_rect desktop = \<lparr> left = 0, top_edge = 0, right = 640, bottom = 480 \<rparr>"
    by (simp add: spec_client_rect_def GetSystemMetricsHook_def SM_defs int_div_values)
  have again: "CreateWindowExAHook desktop recorded swar_request = Inl (AssertionFailed 258)"
    by (simp add: CreateWindowExAHook_def strcmp_eq_0_iff swar_class c_str_SWarClass
          recorded_def Forge_new_def NULL_def)
  show ?thesis
    using desktop_created spec again by simp
qed

text \<open>
  Claim C7. For a class name other than \<^verbatim>\<open>SWarClass\<close>, \<^verbatim>\<open>CreateWindowExAHook\<close> calls
  the original with the arguments it was given, returns what the original returns and
  leaves every field of the context as it was.
\<close>

theorem CreateWindowExAHook_passthrough:
  "c_str (lpClassName a) \<noteq> ''SWarClass'' \<Longrightarrow>
   CreateWindowExAHook p inst a
     = Inr (original_CreateWindowExA p a, inst,
            [Logf Verbose ''CreateWindowExA called for class %s (%d,%d), %dx%d'',
             Call_original_CreateWindowExA a])"
  by (simp add: CreateWindowExAHook_def strcmp_eq_0_iff c_str_SWarClass)

theorem CreateWindowExAHook_passthrough_witness:
  "c_str (lpClassName button_request) \<noteq> ''SWarClass''
   \<and> CreateWindowExAHook desktop Forge_new button_request
     = Inr (0x000A0B0C, Forge_new,
            [Logf Verbose ''CreateWindowExA called for class %s (%d,%d), %dx%d'',
             Call_original_CreateWindowExA button_request])"
proof -
  have h: "c_str (lpClassName button_request) \<noteq> ''SWarClass''"
    by (simp add: button_request_def c_str_def)
  show ?thesis
    using h CreateWindowExAHook_passthrough [OF h, of desktop Forge_new]
    by (simp add: desktop_def)
qed

text \<open>
  Claim C8. Once a window handle is recorded (the field is not \<^verbatim>\<open>NULL\<close>), no sequence of
  operations that runs to its end changes it, and a request for the class \<^verbatim>\<open>SWarClass\<close>
  that arrives then fails the assertion of line 258.
\<close>

theorem window_handle_written_once:
  "(window_handle inst \<noteq> NULL \<and> exec inst operations = Inr inst'
      \<longrightarrow> window_handle inst' = window_handle inst)
   \<and> (window_handle inst \<noteq> NULL \<and> c_str (lpClassName a) = ''SWarClass''
      \<longrightarrow> CreateWindowExAHook p inst a = Inl (AssertionFailed 258))"
  using exec_keeps_window_handle [of inst operations inst']
  by (simp add: CreateWindowExAHook_def strcmp_eq_0_iff c_str_SWarClass)

theorem window_handle_written_once_witness:
  "exec Forge_new [(desktop, Op_CreateWindowExAHook swar_request)] = Inr recorded
   \<and> window_handle recorded \<noteq> NULL
   \<and> exec recorded [(desktop, Op_CreateWindowExAHook button_request),
                     (desktop, Op_WndProc 0x000A0B0C WM_CLOSE 0 0),
                     (desktop, Op_EndWndProc [])]
      = Inr recorded
   \<and> c_str (lpClassName swar_request) = ''SWarClass''
   \<and> CreateWindowExAHook desktop recorded swar_request = Inl (AssertionFailed 258)"
proof -
  have nonnull: "window_handle recorded \<noteq> NULL"
    by (simp add: recorded_def Forge_new_def NULL_def)
  have button: "CreateWindowExAHook desktop recorded button_request
      = Inr (0x000A0B0C, recorded,
            [Logf Verbose ''CreateWindowExA called for class %s (%d,%d), %dx%d'',
             Call_original_CreateWindowExA button_request])"
    using nonnull by (simp add: CreateWindowExAHook_recorded button_request_def desktop_def)
  have run: "exec recorded [(desktop, Op_CreateWindowExAHook button_request),
                     (desktop, Op_WndProc 0x000A0B0C WM_CLOSE 0 0),
                     (desktop, Op_EndWndProc [])] = Inr recorded"
    using nonnull by (simp add: button EndWndProc_def)
  have cls: "c_str (lpClassName swar_request) = ''SWarClass''"
    by (simp add: swar_request_def c_str_def)
  have first: "exec Forge_new [(desktop, Op_CreateWindowExAHook swar_request)] = Inr recorded"
    by (simp add: desktop_created)
  show ?thesis
    using first nonnull run cls
      window_handle_written_once [of recorded
        "[(desktop, Op_CreateWindowExAHook button_request),
          (desktop, Op_WndProc 0x000A0B0C WM_CLOSE 0 0),
          (desktop, Op_EndWndProc [])]" recorded swar_request desktop]
    by simp
qed

subsection \<open>The chained window procedure\<close>

text \<open>
  Claim C2. For the six non-client messages and \<^verbatim>\<open>WM_PAINT\<close>, \<^verbatim>\<open>WndProc\<close> calls
  \<^verbatim>\<open>DefWindowProc\<close> and nothing else, so never the captured procedure. For \<^verbatim>\<open>WM_CLOSE\<close>
  it shows the message box and then goes on as for any unlisted message. Every unlisted
  message goes to the captured procedure when there is one and to \<^verbatim>\<open>DefWindowProc\<close>
  otherwise.
\<close>

theorem WndProc_transitions:
  "(msg \<in> {WM_NCACTIVATE, WM_NCHITTEST, WM_NCLBUTTONDOWN, WM_NCLBUTTONUP, WM_NCMOUSEMOVE,
            WM_NCPAINT, WM_PAINT} \<longrightarrow>
      WndProc p inst hWnd msg wparam lparam
        = (DefWindowProc p hWnd msg wparam lparam,
           [Logf Verbose ''WndProc(..., 0x%04x, 0x%08x, 0x%08x)'',
            Call_DefWindowProc hWnd msg wparam lparam]))
   \<and> WndProc p inst hWnd WM_CLOSE wparam lparam
        = (if original_wndproc inst = NULL
           then (DefWindowProc p hWnd WM_CLOSE wparam lparam,
                 [Logf Verbose ''WndProc(..., 0x%04x, 0x%08x, 0x%08x)'',
                  Call_MessageBox hWnd ''Omg.'' ''Pls no...'' MB_OK,
                  Call_DefWindowProc hWnd WM_CLOSE wparam lparam])
           else (call_wndproc p (original_wndproc inst) hWnd WM_CLOSE wparam lparam,
                 [Logf Verbose ''WndProc(..., 0x%04x, 0x%08x, 0x%08x)'',
                  Call_MessageBox hWnd ''Omg.'' ''Pls no...'' MB_OK,
                  Call_wndproc (original_wndproc inst) hWnd WM_CLOSE wparam lparam]))
   \<and> (msg \<notin> {WM_NCACTIVATE, WM_NCHITTEST, WM_NCLBUTTONDOWN, WM_NCLBUTTONUP, WM_NCMOUSEMOVE,
              WM_NCPAINT, WM_PAINT, WM_CLOSE} \<longrightarrow>
      WndProc p inst hWnd msg wparam lparam
        = (if original_wndproc inst = NULL
           then (DefWindowProc p hWnd msg wparam lparam,
                 [Logf Verbose ''WndProc(..., 0x%04x, 0x%08x, 0x%08x)'',
                  Call_DefWindowProc hWnd msg wparam lparam])
           else (call_wndproc p (original_wndproc inst) hWnd msg wparam lparam,
                 [Logf Verbose ''WndProc(..., 0x%04x, 0x%08x, 0x%08x)'',
                  Call_wndproc (original_wndproc inst) hWnd msg wparam lparam])))"
  by (simp add: WndProc_def WM_defs)

theorem WndProc_transitions_witness:
  "WM_NCPAINT \<in> {WM_NCACTIVATE, WM_NCHITTEST, WM_NCLBUTTONDOWN, WM_NCLBUTTONUP, WM_NCMOUSEMOVE,
            WM_NCPAINT, WM_PAINT}
   \<and> WndProc desktop (Forge_new\<lparr>original_wndproc := 0x00401000\<rparr>) 0x000A0B0C WM_NCPAINT 1 0
       = (0, [Logf Verbose ''WndProc(..., 0x%04x, 0x%08x, 0x%08x)'',
              Call_DefWindowProc 0x000A0B0C WM_NCPAINT 1 0])
   \<and> (0x0200 :: UINT) \<notin> {WM_NCACTIVATE, WM_NCHITTEST, WM_NCLBUTTONDOWN, WM_NCLBUTTONUP,
          WM_NCMOUSEMOVE, WM_NCPAINT, WM_PAINT, WM_CLOSE}
   \<and> WndProc desktop (Forge_new\<lparr>original_wndproc := 0x00401000\<rparr>) 0x000A0B0C 0x0200 0 0
       = (1, [Logf Verbose ''WndProc(..., 0x%04x, 0x%08x, 0x%08x)'',
              Call_wndproc 0x00401000 0x000A0B0C 0x0200 0 0])"
  using WndProc_transitions [of WM_NCPAINT desktop "Forge_new\<lparr>original_wndproc := 0x00401000\<rparr>"
      "0x000A0B0C" 1 0]
    WndProc_transitions [of "0x0200" desktop "Forge_new\<lparr>original_wndproc := 0x00401000\<rparr>"
      "0x000A0B0C" 0 0]
  by (simp add: WM_defs desktop_def Forge_new_def NULL_def)

subsection \<open>The message pump\<close>

text \<open>
  Claim C3 (as the code has it). Let \<^verbatim>\<open>RunWndProc\<close> be called with a window recorded and
  a completion handler. If the queue reaches an entry that ends the loop, the handler is
  called exactly once, with \<^verbatim>\<open>null\<close> and a flag that is \<^verbatim>\<open>true\<close> when \<^verbatim>\<open>GetMessage\<close>
  returned 0 there and \<^verbatim>\<open>false\<close> when it delivered the sentinel. If the queue never
  reaches such an entry, the worker never returns and the handler is not called.
\<close>

theorem RunWndProc_completes_once:
  assumes "window_handle inst \<noteq> NULL"
  shows
    "(list_all pumped before \<and> \<not> pumped (ret, msg) \<longrightarrow>
        handler_calls
          (RunWndProc inst (onComplete # others) (before @ (ret, msg) # rest) has_caught)
        = [Call_Function onComplete [v8_Null, v8_Boolean (ret = 0)]])
     \<and> (list_all pumped queue \<longrightarrow>
        RunWndProc inst (onComplete # others) queue has_caught = Inr (v8_Undefined, None)
        \<and> handler_calls (RunWndProc inst (onComplete # others) queue has_caught) = [])"
  using RunWndProc_exits [OF assms, of before ret msg onComplete others rest has_caught]
    RunWndProc_blocks [OF assms, of queue onComplete others has_caught]
  by (auto simp: handler_calls_def no_completion_while_pumping)

theorem RunWndProc_completes_once_witness:
  "window_handle recorded \<noteq> NULL
   \<and> list_all pumped [(1, ordinary_msg)] \<and> \<not> pumped (1, sentinel_msg)
   \<and> \<not> pumped (0, quit_msg)
   \<and> handler_calls
        (RunWndProc recorded [v8_Function 1] [(1, ordinary_msg), (1, sentinel_msg)] False)
      = [Call_Function (v8_Function 1) [v8_Null, v8_Boolean False]]
   \<and> handler_calls
        (RunWndProc recorded [v8_Function 1] [(1, ordinary_msg), (0, quit_msg)] False)
      = [Call_Function (v8_Function 1) [v8_Null, v8_Boolean True]]
   \<and> RunWndProc recorded [v8_Function 1] [(1, ordinary_msg)] False = Inr (v8_Undefined, None)"
proof -
  have nonnull: "window_handle recorded \<noteq> NULL"
    by (simp add: recorded_def Forge_new_def NULL_def)
  have going: "list_all pumped [(1, ordinary_msg)]"
    by (simp add: pumped_def ordinary_msg_def WM_END_WND_PROC_WORKER_def WM_USER_def)
  have stop: "\<not> pumped (1, sentinel_msg)" "\<not> pumped (0, quit_msg)"
    by (simp_all add: pumped_def sentinel_msg_def)
  show ?thesis
    using nonnull going stop
      RunWndProc_completes_once [OF nonnull, of "[(1, ordinary_msg)]" 1 sentinel_msg
        "v8_Function 1" "[]" "[]" False "[(1, ordinary_msg)]"]
      RunWndProc_completes_once [OF nonnull, of "[(1, ordinary_msg)]" 0 quit_msg
        "v8_Function 1" "[]" "[]" False "[(1, ordinary_msg)]"]
    by simp
qed

text \<open>
  A queue that delivers one mouse message and then nothing: the worker stays blocked in
  \<^verbatim>\<open>GetMessage\<close> and the handler is never called. Nor is it called when
  \<^verbatim>\<open>RunWndProc\<close> runs before any window is recorded: the assertion of line 178 fails.
\<close>

theorem RunWndProc_blocked_counterexample:
  "RunWndProc recorded [v8_Function 1] [(1, ordinary_msg)] False = Inr (v8_Undefined, None)
   \<and> length (handler_calls (RunWndProc recorded [v8_Function 1] [(1, ordinary_msg)] False))
       \<noteq> 1
   \<and> RunWndProc Forge_new [v8_Function 1] [(0, quit_msg)] False = Inl (AssertionFailed 178)
   \<and> length (handler_calls (RunWndProc Forge_new [v8_Function 1] [(0, quit_msg)] False))
       \<noteq> 1"
  by (simp add: RunWndProc_def QueueWorkForUiThread_def WndProcWorker_def handler_calls_def
        recorded_def Forge_new_def NULL_def ordinary_msg_def WM_END_WND_PROC_WORKER_def
        WM_USER_def)

text \<open>
  Claim C10. With no window recorded, \<^verbatim>\<open>EndWndProc\<close> fails its assertion, as
  \<^verbatim>\<open>RunWndProc\<close> does. With a window recorded it posts \<^verbatim>\<open>WM_END_WND_PROC_WORKER\<close> to
  that window, once, and returns \<^verbatim>\<open>undefined\<close>.
\<close>

theorem EndWndProc_requires_window:
  "(window_handle inst = NULL \<longrightarrow>
      EndWndProc inst args = Inl (AssertionFailed 192)
      \<and> RunWndProc inst args' queue has_caught = Inl (AssertionFailed 178))
   \<and> (window_handle inst \<noteq> NULL \<longrightarrow>
      EndWndProc inst args
        = Inr (v8_Undefined,
               [Call_PostMessage (window_handle inst) WM_END_WND_PROC_WORKER NULL NULL]))"
  by (simp add: EndWndProc_def RunWndProc_def)

theorem EndWndProc_requires_window_witness:
  "window_handle Forge_new = NULL
   \<and> EndWndProc Forge_new [] = Inl (AssertionFailed 192)
   \<and> RunWndProc Forge_new [v8_Function 1] [] False = Inl (AssertionFailed 178)
   \<and> window_handle recorded \<noteq> NULL
   \<and> EndWndProc recorded [] = Inr (v8_Undefined, [Call_PostMessage 0x000A0B0C 0x041B 0 0])"
  using EndWndProc_requires_window [of Forge_new "[]" "[v8_Function 1]" "[]" False]
    EndWndProc_requires_window [of recorded "[]"]
  by (simp add: Forge_new_def recorded_def NULL_def WM_END_WND_PROC_WORKER_def WM_USER_def)

subsection \<open>The metrics spoofer and the symbol redirector\<close>

text \<open>
  Claim C4. \<^verbatim>\<open>GetSystemMetricsHook\<close> answers 640 for \<^verbatim>\<open>SM_CXSCREEN\<close> and
  \<^verbatim>\<open>SM_CXFULLSCREEN\<close> and 480 for \<^verbatim>\<open>SM_CYSCREEN\<close> and \<^verbatim>\<open>SM_CYFULLSCREEN\<close>, without
  calling the original; for every other index it calls the original with that index and
  returns its value, whatever that value is.
\<close>

theorem GetSystemMetricsHook_spoofs:
  "GetSystemMetricsHook p SM_CXSCREEN = (640, [])
   \<and> GetSystemMetricsHook p SM_CXFULLSCREEN = (640, [])
   \<and> GetSystemMetricsHook p SM_CYSCREEN = (480, [])
   \<and> GetSystemMetricsHook p SM_CYFULLSCREEN = (480, [])
   \<and> (nIndex \<notin> {SM_CXSCREEN, SM_CXFULLSCREEN, SM_CYSCREEN, SM_CYFULLSCREEN} \<longrightarrow>
        GetSystemMetricsHook p nIndex
          = (original_GetSystemMetrics p nIndex, [Call_original_GetSystemMetrics nIndex]))"
  by (simp add: GetSystemMetricsHook_def SM_defs)

theorem GetSystemMetricsHook_spoofs_witness:
  "(5 :: int32) \<notin> {SM_CXSCREEN, SM_CXFULLSCREEN, SM_CYSCREEN, SM_CYFULLSCREEN}
   \<and> GetSystemMetricsHook desktop 5 = (- 1, [Call_original_GetSystemMetrics 5])
   \<and> sint (fst (GetSystemMetricsHook desktop 5)) < 0
   \<and> GetSystemMetricsHook desktop SM_CXSCREEN = (640, [])"
  using GetSystemMetricsHook_spoofs [of desktop 5]
  by (simp add: SM_defs desktop_def)

text \<open>
  Claim C5. When the requested name is \<^verbatim>\<open>DirectDrawCreate\<close>, \<^verbatim>\<open>GetProcAddressHook\<close>
  returns the address of \<^verbatim>\<open>DirectGlawCreate\<close> and does not call the original resolver.
  For every other name, among them the name in lower case and the empty name, it calls
  the original resolver with the same module and name and returns its result.
\<close>

theorem GetProcAddressHook_redirects:
  "(c_str lpProcName = ''DirectDrawCreate'' \<longrightarrow>
      GetProcAddressHook p hModule lpProcName
        = (DirectGlawCreate p, [Logf Verbose ''Injecting custom DirectDrawCreate'']))
   \<and> (c_str lpProcName \<noteq> ''DirectDrawCreate'' \<longrightarrow>
      GetProcAddressHook p hModule lpProcName
        = (original_GetProcAddress p hModule lpProcName,
           [Call_original_GetProcAddress hModule lpProcName]))
   \<and> GetProcAddressHook p hModule ''directdrawcreate''
        = (original_GetProcAddress p hModule ''directdrawcreate'',
           [Call_original_GetProcAddress hModule ''directdrawcreate''])
   \<and> GetProcAddressHook p hModule ''''
        = (original_GetProcAddress p hModule '''', [Call_original_GetProcAddress hModule ''''])"
  by (simp add: GetProcAddressHook_def strcmp_eq_0_iff c_str_def)

theorem GetProcAddressHook_redirects_witness:
  "c_str ''DirectDrawCreate'' = ''DirectDrawCreate''
   \<and> fst (GetProcAddressHook desktop 0x10000000 ''DirectDrawCreate'') = 0x10002000
   \<and> c_str ''DirectDrawSurface'' \<noteq> ''DirectDrawCreate''
   \<and> fst (GetProcAddressHook desktop 0x10000000 ''DirectDrawSurface'') = 0x76000011"
  using GetProcAddressHook_redirects [of "''DirectDrawCreate''" desktop "0x10000000"]
    GetProcAddressHook_redirects [of "''DirectDrawSurface''" desktop "0x10000000"]
  by (simp add: c_str_def desktop_def)

subsection \<open>The hook table and the graphics backend\<close>

text \<open>
  Claim C6. \<^verbatim>\<open>Inject\<close> calls \<^verbatim>\<open>Inject()\<close> of each of the three entries and returns the
  conjunction of the three results, and \<^verbatim>\<open>Restore\<close> does the same with \<^verbatim>\<open>Restore()\<close>:
  the result is \<^verbatim>\<open>true\<close> exactly when every entry succeeded.
\<close>

theorem Inject_Restore_conjunction:
  "Inject p args
     = (v8_Boolean (hook_Inject p Hook_CreateWindowExA \<and> hook_Inject p Hook_GetSystemMetrics
                    \<and> hook_Inject p Hook_GetProcAddress),
        [Call_hook_Inject Hook_CreateWindowExA, Call_hook_Inject Hook_GetSystemMetrics,
         Call_hook_Inject Hook_GetProcAddress])
   \<and> Restore p args
     = (v8_Boolean (hook_Restore p Hook_CreateWindowExA \<and> hook_Restore p Hook_GetSystemMetrics
                    \<and> hook_Restore p Hook_GetProcAddress),
        [Call_hook_Restore Hook_CreateWindowExA, Call_hook_Restore Hook_GetSystemMetrics,
         Call_hook_Restore Hook_GetProcAddress])
   \<and> (fst (Inject p args) = v8_Boolean True \<longleftrightarrow> (\<forall>e. hook_Inject p e))
   \<and> (fst (Restore p args) = v8_Boolean True \<longleftrightarrow> (\<forall>e. hook_Restore p e))"
proof -
  have all: "(\<forall>e. f e) \<longleftrightarrow> f Hook_CreateWindowExA \<and> f Hook_GetSystemMetrics \<and> f Hook_GetProcAddress"
    for f :: "hook_entry \<Rightarrow> bool"
    by (metis hook_entry.exhaust)
  show ?thesis
    by (simp add: Inject_def Restore_def and_assign_def all)
qed

theorem Inject_Restore_conjunction_witness:
  "Inject desktop [] = (v8_Boolean True, [Call_hook_Inject Hook_CreateWindowExA,
       Call_hook_Inject Hook_GetSystemMetrics, Call_hook_Inject Hook_GetProcAddress])
   \<and> fst (Restore desktop []) = v8_Boolean False"
  using Inject_Restore_conjunction [of desktop "[]"]
  by (simp add: desktop_def)

text \<open>
  Claim C9. \<^verbatim>\<open>RegisterDirectGlaw\<close> fails its first assertion when a backend is already
  registered, and its second or third when the vertex or the fragment shader source is
  not set. Otherwise it takes a reference to the backend, stores it and hands it the two
  sources; a second registration then fails.
\<close>

theorem RegisterDirectGlaw_once:
  "(direct_glaw inst \<noteq> None \<longrightarrow> RegisterDirectGlaw inst glaw = Inl (AssertionFailed 91))
   \<and> (direct_glaw inst = None \<and> vertex_shader_src inst = None \<longrightarrow>
        RegisterDirectGlaw inst glaw = Inl (AssertionFailed 92))
   \<and> (direct_glaw inst = None \<and> vertex_shader_src inst \<noteq> None
        \<and> fragment_shader_src inst = None \<longrightarrow>
        RegisterDirectGlaw inst glaw = Inl (AssertionFailed 93))
   \<and> (direct_glaw inst = None \<and> vertex_shader_src inst = Some vertex_src
        \<and> fragment_shader_src inst = Some fragment_src \<longrightarrow>
        RegisterDirectGlaw inst glaw
          = Inr (inst\<lparr>direct_glaw := Some glaw\<rparr>,
                 [Call_AddRef glaw, Call_SetVertexShader glaw vertex_src,
                  Call_SetFragmentShader glaw fragment_src])
        \<and> RegisterDirectGlaw (inst\<lparr>direct_glaw := Some glaw\<rparr>) glaw'
          = Inl (AssertionFailed 91))"
  by (auto simp: RegisterDirectGlaw_def split: option.splits)

theorem RegisterDirectGlaw_once_witness:
  "direct_glaw Forge_new = None \<and> vertex_shader_src Forge_new = None
   \<and> RegisterDirectGlaw Forge_new (DirectGlaw 1) = Inl (AssertionFailed 92)
   \<and> RegisterDirectGlaw
        (Forge_new\<lparr>vertex_shader_src := Some ''v'', fragment_shader_src := Some ''f''\<rparr>)
        (DirectGlaw 1)
      = Inr (Forge_new\<lparr>vertex_shader_src := Some ''v'', fragment_shader_src := Some ''f'',
                        direct_glaw := Some (DirectGlaw 1)\<rparr>,
             [Call_AddRef (DirectGlaw 1), Call_SetVertexShader (DirectGlaw 1) ''v'',
              Call_SetFragmentShader (DirectGlaw 1) ''f''])
   \<and> RegisterDirectGlaw
        (Forge_new\<lparr>vertex_shader_src := Some ''v'', fragment_shader_src := Some ''f'',
                   direct_glaw := Some (DirectGlaw 1)\<rparr>)
        (DirectGlaw 2)
      = Inl (AssertionFailed 91)"
  using RegisterDirectGlaw_once [of Forge_new "DirectGlaw 1"]
    RegisterDirectGlaw_once
      [of "Forge_new\<lparr>vertex_shader_src := Some ''v'', fragment_shader_src := Some ''f''\<rparr>"
          "DirectGlaw 1" "''v''" "''f''" "DirectGlaw 2"]
  by (simp add: Forge_new_def)

end
